theory Spec2Isabelle
  imports Main "HOL-Library.Word"
begin

section \<open>Data model\<close>

text \<open>
  The secure overlay of \<^verbatim>\<open>src/src/securedht.cpp\<close> and the key and certificate
  types of \<^verbatim>\<open>src/include/opendht/crypto.h\<close>. A \<^verbatim>\<open>Blob\<close> is a byte vector and an
  \<^verbatim>\<open>InfoHash\<close> a 160-bit identifier.
\<close>

type_synonym Blob = "8 word list"
type_synonym InfoHash = "160 word"

text \<open>
  The GnuTLS objects behind keys and certificates are opaque handles; \<open>None\<close> is the
  null handle a default-constructed object holds.
\<close>

type_synonym gnutls_handle = nat

datatype PublicKey = PublicKey (pk: "gnutls_handle option")

datatype PrivateKey = PrivateKey (key: "gnutls_handle option") (x509_key: "gnutls_handle option")

datatype Certificate = Certificate (cert: "gnutls_handle option") (issuer: "Certificate option")

text \<open>
  \<^verbatim>\<open>PublicKey::operator bool\<close>: \<^verbatim>\<open>return pk;\<close> and
  \<^verbatim>\<open>Certificate::operator bool\<close>: \<^verbatim>\<open>return cert;\<close>
\<close>

definition PublicKey_bool :: "PublicKey \<Rightarrow> bool" where
  "PublicKey_bool p = (pk p \<noteq> None)"

definition Certificate_bool :: "Certificate \<Rightarrow> bool" where
  "Certificate_bool c = (cert c \<noteq> None)"

text \<open>
  \<^verbatim>\<open>Identity\<close> is a pair of shared pointers, either of which may be null.
\<close>

type_synonym Identity = "PrivateKey option \<times> Certificate option"

text \<open>
  Modelled from the spec: the class \<^verbatim>\<open>Value\<close> and its flags (value.h is not among the
  sources). The spec lists the fields and the three flags
  \<^verbatim>\<open>{ signed, encrypted, has_recipient }\<close>; the source reads them as
  \<^verbatim>\<open>isSigned()\<close>, \<^verbatim>\<open>isEncrypted()\<close> and \<^verbatim>\<open>flags[2]\<close>. The width of the sequence
  number is not fixed by the sources: it is the parameter \<open>'s\<close>, and \<open>seq + 1\<close> wraps
  as unsigned arithmetic of that width does.
\<close>

datatype ValueFlags = ValueFlags (isSigned: bool) (isEncrypted: bool) (haveRecipient: bool)

record (overloaded) 's Value =
  id_v :: "64 word"
  type_v :: "16 word"
  flags :: ValueFlags
  owner :: PublicKey
  recipient :: InfoHash
  data :: Blob
  cypher :: Blob
  signature :: Blob
  seq :: "'s word"

text \<open>
  A value type with its two policies, as \<^verbatim>\<open>secureType\<close> uses them: the arguments are the
  info-hash, the value (for an edit: the old and the new value), the id of the sending node
  and its socket address and length.
\<close>

record (overloaded) 's ValueType =
  id_t :: "16 word"
  storePolicy :: "InfoHash \<Rightarrow> 's Value \<Rightarrow> InfoHash \<Rightarrow> Blob \<Rightarrow> nat \<Rightarrow> bool"
  editPolicy :: "InfoHash \<Rightarrow> 's Value \<Rightarrow> 's Value \<Rightarrow> InfoHash \<Rightarrow> Blob \<Rightarrow> nat \<Rightarrow> bool"

section \<open>The collaborators\<close>

text \<open>
  The GnuTLS wrapper (crypto.cpp), the serialisation of values (value.h), the hash
  functions of \<^verbatim>\<open>InfoHash\<close> and the tables of default value types are declared or used
  by the sources but not defined there. They are parameters of the model, collected in one
  record. \<^verbatim>\<open>crypto.h\<close> documents \<^verbatim>\<open>PrivateKey::decrypt\<close> as throwing on failure, and
  the constructor \<^verbatim>\<open>Certificate(const Blob&)\<close> and \<^verbatim>\<open>unpackBody\<close> are called inside
  \<^verbatim>\<open>try\<close> blocks: these three return \<open>None\<close> where the code throws.
  \<open>gnutls_global_init\<close> is \<open>True\<close> when the library initialised (always, from
  GnuTLS 3.3 on, where the call is compiled out). \<open>no_key_id\<close> is explained at
  \<open>getId\<close> below.
\<close>

record (overloaded) 's Lib =
  PublicKey_getId :: "PublicKey \<Rightarrow> InfoHash"
  PublicKey_checkSignature :: "PublicKey \<Rightarrow> Blob \<Rightarrow> Blob \<Rightarrow> bool"
  PublicKey_encrypt :: "PublicKey \<Rightarrow> Blob \<Rightarrow> Blob"
  PrivateKey_getPublicKey :: "PrivateKey \<Rightarrow> PublicKey"
  PrivateKey_sign :: "PrivateKey \<Rightarrow> Blob \<Rightarrow> Blob"
  PrivateKey_decrypt :: "PrivateKey \<Rightarrow> Blob \<Rightarrow> Blob option"
  Certificate_import :: "Blob \<Rightarrow> Certificate option"
  Certificate_getPublicKey :: "Certificate \<Rightarrow> PublicKey"
  Certificate_pack :: "Certificate \<Rightarrow> Blob"
  Value_getToSign :: "'s Value \<Rightarrow> Blob"
  Value_getToEncrypt :: "'s Value \<Rightarrow> Blob"
  Value_unpackBody :: "'s Value \<Rightarrow> Blob \<Rightarrow> 's Value option"
  InfoHash_get :: "string \<Rightarrow> InfoHash"
  InfoHash_toString :: "InfoHash \<Rightarrow> string"
  gnutls_global_init :: bool
  DEFAULT_TYPES :: "'s ValueType list"
  DEFAULT_INSECURE_TYPES :: "'s ValueType list"
  CERTIFICATE_TYPE :: "'s ValueType"
  no_key_id :: InfoHash

text \<open>\<^verbatim>\<open>Certificate::getId\<close>, by its comment in crypto.h: same as \<^verbatim>\<open>getPublicKey().getId()\<close>.\<close>

definition Certificate_getId :: "'s::len Lib \<Rightarrow> Certificate \<Rightarrow> InfoHash" where
  "Certificate_getId lib c = PublicKey_getId lib (Certificate_getPublicKey lib c)"


definition Value_id :: "64 word \<Rightarrow> 's::len Value" where
  "Value_id i = \<lparr>id_v = i, type_v = 0, flags = ValueFlags False False False,
     owner = PublicKey None, recipient = 0, data = [], cypher = [], signature = [], seq = 0\<rparr>"

definition Value_typed :: "'s::len ValueType \<Rightarrow> Blob \<Rightarrow> 64 word \<Rightarrow> 's Value" where
  "Value_typed t packed i = (Value_id i)\<lparr>type_v := id_t t, data := packed\<rparr>"

definition setRecipient :: "'s::len Value \<Rightarrow> InfoHash \<Rightarrow> 's Value" where
  "setRecipient v r =
     v\<lparr>recipient := r, flags := ValueFlags (isSigned (flags v)) (isEncrypted (flags v)) True\<rparr>"

definition setCypher :: "'s::len Value \<Rightarrow> Blob \<Rightarrow> 's Value" where
  "setCypher v c =
     v\<lparr>cypher := c, flags := ValueFlags (isSigned (flags v)) True (haveRecipient (flags v))\<rparr>"


section \<open>The state of a secure node\<close>

text \<open>
  The members of \<^verbatim>\<open>SecureDht\<close> that the source reads and writes (\<^verbatim>\<open>key_\<close>,
  \<^verbatim>\<open>certificate_\<close>, \<^verbatim>\<open>nodesCertificates_\<close>, \<^verbatim>\<open>localQueryMethod_\<close>; a name cannot
  end with an underscore here, so each carries the suffix \<open>_m\<close>), and of the
  underlying \<^verbatim>\<open>Dht\<close>: the node id handed to its constructor, the registered value types
  and the announcements issued through \<^verbatim>\<open>Dht::put\<close>.
\<close>

record (overloaded) 's SecureDht =
  myid :: InfoHash
  key_m :: "PrivateKey option"
  certificate_m :: "Certificate option"
  nodesCertificates_m :: "InfoHash \<rightharpoonup> Certificate"
  localQueryMethod_m :: "(InfoHash \<Rightarrow> Certificate list) option"
  types :: "'s ValueType list"
  puts :: "(InfoHash \<times> 's Value) list"

text \<open>
  The exceptions of the source, one constructor for each \<^verbatim>\<open>throw\<close>, for the failures of
  the collaborators, and \<open>Null_key\<close> for \<^verbatim>\<open>sign\<close> and \<^verbatim>\<open>decrypt\<close> dereferencing a
  null \<open>key_m\<close> (undefined behaviour in C++; a failure here, so that no result is claimed
  for it).
\<close>

datatype exn =
    GnuTLS_init_failed
  | Certificate_key_mismatch
  | Cannot_sign_encrypted
  | Already_encrypted
  | Not_encrypted
  | Decrypt_failed
  | Unpack_failed
  | Null_key

text \<open>
  Modelled from the spec: \<^verbatim>\<open>Dht::registerType\<close>, \<^verbatim>\<open>Dht::put\<close> and \<^verbatim>\<open>Dht::getPut\<close>
  (dht.cpp is not among the sources). A registration appends the type; \<^verbatim>\<open>put\<close> records
  the announcement; \<^verbatim>\<open>getPut(hash, value_id)\<close> is the "last local announcement" under
  that hash and value id.
\<close>

definition Dht_registerType :: "'s::len ValueType \<Rightarrow> 's SecureDht \<Rightarrow> 's SecureDht" where
  "Dht_registerType t dht = dht\<lparr>types := types dht @ [t]\<rparr>"

definition Dht_put :: "'s::len SecureDht \<Rightarrow> InfoHash \<Rightarrow> 's Value \<Rightarrow> 's SecureDht" where
  "Dht_put dht hash v = dht\<lparr>puts := puts dht @ [(hash, v)]\<rparr>"


section \<open>The value-type policy wrapper\<close>

text \<open>
  \<^verbatim>\<open>SecureDht::secureType\<close>. Both lambdas capture the type by copy before their own
  field is overwritten, so \<open>storePolicy type\<close> and \<open>editPolicy type\<close> below are the
  inner policies. \<open>old\<close> and \<open>new\<close> are the source's \<^verbatim>\<open>o\<close> and \<^verbatim>\<open>n\<close>.
  \<^verbatim>\<open>PublicKey\<close> (crypto.h) declares no comparison operator, only the conversion
  \<^verbatim>\<open>operator bool\<close>, which is not explicit: in \<^verbatim>\<open>o->owner != n->owner\<close> both keys
  are converted to \<^verbatim>\<open>bool\<close>, and the test compares whether each key is set.
\<close>

definition secureType :: "'s::len Lib \<Rightarrow> 's ValueType \<Rightarrow> 's ValueType" where
  "secureType lib type = type\<lparr>
     storePolicy := (\<lambda>id v nid a al.
       if isSigned (flags v) \<and> \<not> isEncrypted (flags v) then
         (if \<not> PublicKey_checkSignature lib (owner v) (Value_getToSign lib v) (signature v)
          then False
          else storePolicy type id v nid a al)
       else storePolicy type id v nid a al),
     editPolicy := (\<lambda>id old new nid a al.
       if \<not> isSigned (flags old) \<or> isEncrypted (flags old)
         then editPolicy type id old new nid a al
       else if PublicKey_bool (owner old) \<noteq> PublicKey_bool (owner new) then False
       else if \<not> PublicKey_checkSignature lib (owner old) (Value_getToSign lib new)
                 (signature new)
         then False
       else if seq old = seq new then
         (if Value_getToSign lib old \<noteq> Value_getToSign lib new then False else True)
       else if seq new < seq old then False
       else True)\<rparr>"

section \<open>The certificate directory\<close>

text \<open>
  Modelled from the spec: \<^verbatim>\<open>SecureDht::getId()\<close> (securedht.h is not among the sources).
  The sources compare it with the id of a value's owner key (\<^verbatim>\<open>putSigned\<close>), with the
  recipient of a decrypted value (\<^verbatim>\<open>getCallbackFilter\<close>) and with the id a certificate
  is asked for (\<^verbatim>\<open>getCertificate\<close>), and the spec addresses a node by the id under
  which its certificate is found ("putEncrypted(h, B.id, ...)", "owned by self"): it is
  the id of the node's own public key, which \<^verbatim>\<open>sign\<close> writes into \<open>owner\<close>. What
  a node without a private key answers is not said: it is the parameter \<open>no_key_id\<close>.
\<close>

definition getId :: "'s::len Lib \<Rightarrow> 's SecureDht \<Rightarrow> InfoHash" where
  "getId lib dht =
     (case key_m dht of
        Some k \<Rightarrow> PublicKey_getId lib (PrivateKey_getPublicKey lib k)
      | None \<Rightarrow> no_key_id lib)"

text \<open>\<^verbatim>\<open>SecureDht::getCertificate\<close>: a null pointer is \<open>None\<close>.\<close>

definition getCertificate :: "'s::len Lib \<Rightarrow> 's SecureDht \<Rightarrow> InfoHash \<Rightarrow> Certificate option" where
  "getCertificate lib dht node =
     (if node = getId lib dht then certificate_m dht
      else (case nodesCertificates_m dht node of
              None \<Rightarrow> None
            | Some crt \<Rightarrow> Some crt))"

text \<open>
  \<^verbatim>\<open>SecureDht::registerCertificate(node, data)\<close> returns the pointer it hands back and
  the node with its cache. The source inserts with \<^verbatim>\<open>emplace\<close> when the key is absent
  and assigns otherwise.
\<close>

definition registerCertificate ::
  "'s::len Lib \<Rightarrow> 's SecureDht \<Rightarrow> InfoHash \<Rightarrow> Blob \<Rightarrow> Certificate option \<times> 's SecureDht" where
  "registerCertificate lib dht node dat =
     (case Certificate_import lib dat of
        None \<Rightarrow> (None, dht)
      | Some crt \<Rightarrow>
          (let h = PublicKey_getId lib (Certificate_getPublicKey lib crt) in
           if node = h then
             (case nodesCertificates_m dht h of
                None \<Rightarrow> (Some crt, dht\<lparr>nodesCertificates_m := (nodesCertificates_m dht)(h \<mapsto> crt)\<rparr>)
              | Some _ \<Rightarrow> (Some crt, dht\<lparr>nodesCertificates_m := (nodesCertificates_m dht)(h \<mapsto> crt)\<rparr>))
           else (None, dht)))"

text \<open>\<^verbatim>\<open>SecureDht::registerCertificate(cert)\<close>: the unconditional insert.\<close>

definition registerCertificate_ptr ::
  "'s::len Lib \<Rightarrow> 's SecureDht \<Rightarrow> Certificate option \<Rightarrow> 's SecureDht" where
  "registerCertificate_ptr lib dht c =
     (case c of
        None \<Rightarrow> dht
      | Some crt \<Rightarrow>
          dht\<lparr>nodesCertificates_m := (nodesCertificates_m dht)(Certificate_getId lib crt \<mapsto> crt)\<rparr>)"

section \<open>Construction\<close>

text \<open>
  Modelled from the spec: \<^verbatim>\<open>SecureDht::registerType\<close> and
  \<^verbatim>\<open>registerInsecureType\<close> (securedht.h): a type is registered wrapped by
  \<^verbatim>\<open>secureType\<close>, an insecure one as it is.
\<close>

definition registerType :: "'s::len Lib \<Rightarrow> 's ValueType \<Rightarrow> 's SecureDht \<Rightarrow> 's SecureDht" where
  "registerType lib t dht = Dht_registerType (secureType lib t) dht"

definition registerInsecureType :: "'s::len ValueType \<Rightarrow> 's SecureDht \<Rightarrow> 's SecureDht" where
  "registerInsecureType t dht = Dht_registerType t dht"

text \<open>
  The constructor \<^verbatim>\<open>SecureDht::SecureDht(s, s6, id)\<close>. The initialiser list runs first:
  the node id of the underlying \<^verbatim>\<open>Dht\<close> (\<open>rnd\<close> stands for \<^verbatim>\<open>InfoHash::getRandom()\<close>),
  \<open>key_m\<close> and \<open>certificate_m\<close>. The body returns at once when both sockets are
  negative.
\<close>

definition SecureDht_ctor ::
  "'s::len Lib \<Rightarrow> int \<Rightarrow> int \<Rightarrow> Identity \<Rightarrow> InfoHash \<Rightarrow> exn + 's SecureDht" where
  "SecureDht_ctor lib s s6 ident rnd =
     (let dht0 = \<lparr>myid = (case snd ident of
                             Some c \<Rightarrow> InfoHash_get lib
                               (''node:'' @ InfoHash_toString lib (Certificate_getId lib c))
                           | None \<Rightarrow> rnd),
                   key_m = fst ident,
                   certificate_m = snd ident,
                   nodesCertificates_m = Map.empty,
                   localQueryMethod_m = None,
                   types = [],
                   puts = []\<rparr>
      in if s < 0 \<and> s6 < 0 then Inr dht0
         else if \<not> gnutls_global_init lib then Inl GnuTLS_init_failed
         else
           (let dht1 = fold (registerType lib) (DEFAULT_TYPES lib) dht0;
                dht2 = fold registerInsecureType (DEFAULT_INSECURE_TYPES lib) dht1;
                dht3 = registerInsecureType (CERTIFICATE_TYPE lib) dht2
            in case certificate_m dht3 of
                 None \<Rightarrow> Inr dht3
               | Some c \<Rightarrow>
                   (let certId = PublicKey_getId lib (Certificate_getPublicKey lib c) in
                    if (case key_m dht3 of
                          None \<Rightarrow> False
                        | Some k \<Rightarrow> certId \<noteq> PublicKey_getId lib (PrivateKey_getPublicKey lib k))
                    then Inl Certificate_key_mismatch
                    else Inr (Dht_put dht3 certId
                                (Value_typed (CERTIFICATE_TYPE lib) (Certificate_pack lib c) 1)))))"

section \<open>Signing, encrypting, decrypting\<close>

text \<open>\<^verbatim>\<open>SecureDht::sign(v)\<close> changes \<open>v\<close> in place: the result is the changed value.\<close>

definition sign :: "'s::len Lib \<Rightarrow> 's SecureDht \<Rightarrow> 's Value \<Rightarrow> exn + 's Value" where
  "sign lib dht v =
     (if isEncrypted (flags v) then Inl Cannot_sign_encrypted
      else (case key_m dht of
              None \<Rightarrow> Inl Null_key
            | Some k \<Rightarrow>
                (let v1 = v\<lparr>owner := PrivateKey_getPublicKey lib k\<rparr>;
                     v2 = v1\<lparr>flags := ValueFlags True False (haveRecipient (flags v1))\<rparr>
                 in Inr (v2\<lparr>signature := PrivateKey_sign lib k (Value_getToSign lib v2)\<rparr>))))"

text \<open>
  \<^verbatim>\<open>SecureDht::encrypt(v, to)\<close> changes \<open>v\<close> in place and returns the new value
  \<open>nv\<close>: the result is the pair of the changed \<open>v\<close> and \<open>nv\<close>.
\<close>

definition encrypt ::
  "'s::len Lib \<Rightarrow> 's SecureDht \<Rightarrow> 's Value \<Rightarrow> PublicKey \<Rightarrow> exn + ('s Value \<times> 's Value)" where
  "encrypt lib dht v to =
     (if isEncrypted (flags v) then Inl Already_encrypted
      else (case sign lib dht (setRecipient v (PublicKey_getId lib to)) of
              Inl e \<Rightarrow> Inl e
            | Inr v' \<Rightarrow>
                Inr (v', setCypher (Value_id (id_v v'))
                           (PublicKey_encrypt lib to (Value_getToEncrypt lib v')))))"

text \<open>\<^verbatim>\<open>SecureDht::decrypt(v)\<close>.\<close>

definition decrypt :: "'s::len Lib \<Rightarrow> 's SecureDht \<Rightarrow> 's Value \<Rightarrow> exn + 's Value" where
  "decrypt lib dht v =
     (if \<not> isEncrypted (flags v) then Inl Not_encrypted
      else (case key_m dht of
              None \<Rightarrow> Inl Null_key
            | Some k \<Rightarrow>
                (case PrivateKey_decrypt lib k (cypher v) of
                   None \<Rightarrow> Inl Decrypt_failed
                 | Some decrypted \<Rightarrow>
                     (case Value_unpackBody lib (Value_id (id_v v)) decrypted of
                        None \<Rightarrow> Inl Unpack_failed
                      | Some ret \<Rightarrow> Inr ret))))"

section \<open>The receive pipeline\<close>

text \<open>
  An optional \<^verbatim>\<open>Value::Filter\<close>: \<^verbatim>\<open>not filter or filter(v)\<close>.
\<close>

definition passes :: "('s::len Value \<Rightarrow> bool) option \<Rightarrow> 's Value \<Rightarrow> bool" where
  "passes flt v = (case flt of None \<Rightarrow> True | Some f \<Rightarrow> f v)"

text \<open>
  The body of the loop of \<^verbatim>\<open>getCallbackFilter\<close>: the value pushed onto \<^verbatim>\<open>tmpvals\<close>
  for \<open>v\<close>, if any. Every exception of \<^verbatim>\<open>decrypt\<close> is caught and the value skipped.
\<close>

definition keepValue ::
  "'s::len Lib \<Rightarrow> 's SecureDht \<Rightarrow> ('s Value \<Rightarrow> bool) option \<Rightarrow> 's Value \<Rightarrow> 's Value option" where
  "keepValue lib dht flt v =
     (if isEncrypted (flags v) then
        (if key_m dht = None then None
         else (case decrypt lib dht v of
                 Inl e \<Rightarrow> None
               | Inr decrypted_val \<Rightarrow>
                   if recipient decrypted_val = getId lib dht then
                     (if PublicKey_checkSignature lib (owner decrypted_val)
                           (Value_getToSign lib decrypted_val) (signature decrypted_val)
                      then (if passes flt decrypted_val then Some decrypted_val else None)
                      else None)
                   else None))
      else if isSigned (flags v) then
        (if PublicKey_checkSignature lib (owner v) (Value_getToSign lib v) (signature v)
         then (if passes flt v then Some v else None)
         else None)
      else (if passes flt v then Some v else None))"

primrec tmpvals ::
  "'s::len Lib \<Rightarrow> 's SecureDht \<Rightarrow> ('s Value \<Rightarrow> bool) option \<Rightarrow> 's Value list \<Rightarrow> 's Value list" where
  "tmpvals lib dht flt [] = []"
| "tmpvals lib dht flt (v # values) =
     (case keepValue lib dht flt v of
        None \<Rightarrow> tmpvals lib dht flt values
      | Some x \<Rightarrow> x # tmpvals lib dht flt values)"

text \<open>
  \<^verbatim>\<open>SecureDht::getCallbackFilter(cb, filter)\<close>: the wrapped callback. A user callback
  may change state of its own, so it takes and returns that state \<open>u\<close> beside its
  boolean answer; an empty \<^verbatim>\<open>std::function\<close> is \<open>None\<close>.
\<close>

definition getCallbackFilter ::
  "'s::len Lib \<Rightarrow> 's SecureDht \<Rightarrow> ('s Value list \<Rightarrow> 'u \<Rightarrow> bool \<times> 'u) option \<Rightarrow>
   ('s Value \<Rightarrow> bool) option \<Rightarrow> 's Value list \<Rightarrow> 'u \<Rightarrow> bool \<times> 'u" where
  "getCallbackFilter lib dht cb flt values u =
     (let t = tmpvals lib dht flt values in
      case cb of
        None \<Rightarrow> (True, u)
      | Some c \<Rightarrow> if t \<noteq> [] then c t u else (True, u))"

text \<open>
  Modelled from the spec: \<^verbatim>\<open>Dht::get(hash, on_values, done, filter)\<close> (dht.cpp is not
  among the sources). The underlying DHT hands the batches of values it has to
  \<^verbatim>\<open>on_values\<close> in the order received, leaving out the values the filter rejects, and
  calls \<^verbatim>\<open>done(ok)\<close> when the get completes. \<open>batches\<close> are the batches it has and
  \<open>completion\<close> is \<open>None\<close> for a get that has not completed. The answer of
  \<^verbatim>\<open>on_values\<close> asks the DHT to go on or to stop; the list holds what was delivered
  all the same.
\<close>

definition Dht_get ::
  "('s::len Value list \<Rightarrow> 'u \<Rightarrow> bool \<times> 'u) \<Rightarrow> (bool \<Rightarrow> 'u \<Rightarrow> 'u) \<Rightarrow> ('s Value \<Rightarrow> bool) option \<Rightarrow>
   's Value list list \<Rightarrow> bool option \<Rightarrow> 'u \<Rightarrow> 'u" where
  "Dht_get getcb donecb flt batches completion u =
     (let u' = fold (\<lambda>values st. snd (getcb (filter (passes flt) values) st)) batches u in
      case completion of
        None \<Rightarrow> u'
      | Some ok \<Rightarrow> donecb ok u')"


section \<open>Resolving a certificate\<close>

text \<open>
  Modelled from the spec: \<^verbatim>\<open>Value::TypeFilter(type)\<close> (value.h), the filter
  "type==CERTIFICATE" of \<^verbatim>\<open>findCertificate\<close>.
\<close>

definition TypeFilter :: "'s::len ValueType \<Rightarrow> 's Value \<Rightarrow> bool" where
  "TypeFilter t v = (type_v v = id_t t)"

text \<open>
  The two lambdas \<^verbatim>\<open>findCertificate\<close> hands to \<^verbatim>\<open>Dht::get\<close> share the flag
  \<^verbatim>\<open>found\<close>. Their state is that flag, the node (whose cache
  \<^verbatim>\<open>registerCertificate\<close> writes) and the calls made to the user's callback so far, each
  with its argument (\<open>None\<close> is \<^verbatim>\<open>cb(nullptr)\<close>). \<open>cb\<close> says whether the user's
  \<^verbatim>\<open>std::function\<close> is set.
\<close>

type_synonym 's find_state = "bool \<times> 's SecureDht \<times> Certificate option list"

fun findCertificate_loop ::
  "'s::len Lib \<Rightarrow> InfoHash \<Rightarrow> bool \<Rightarrow> 's Value list \<Rightarrow> 's find_state \<Rightarrow> bool \<times> 's find_state" where
  "findCertificate_loop lib node cb [] st = (True, st)"
| "findCertificate_loop lib node cb (v # vals) (found, dht, calls) =
     (case registerCertificate lib dht node (data v) of
        (Some crt, dht') \<Rightarrow> (False, (True, dht', if cb then calls @ [Some crt] else calls))
      | (None, dht') \<Rightarrow> findCertificate_loop lib node cb vals (found, dht', calls))"

definition findCertificate_values ::
  "'s::len Lib \<Rightarrow> InfoHash \<Rightarrow> bool \<Rightarrow> 's Value list \<Rightarrow> 's find_state \<Rightarrow> bool \<times> 's find_state" where
  "findCertificate_values lib node cb vals st =
     (case st of (found, dht, calls) \<Rightarrow>
        if found then (False, st) else findCertificate_loop lib node cb vals st)"

definition findCertificate_done :: "bool \<Rightarrow> bool \<Rightarrow> 's::len find_state \<Rightarrow> 's find_state" where
  "findCertificate_done cb ok st =
     (case st of (found, dht, calls) \<Rightarrow>
        if \<not> found \<and> cb then (found, dht, calls @ [None]) else st)"

text \<open>The last part of \<^verbatim>\<open>findCertificate\<close>: the get on the DHT.\<close>

definition findCertificate_get ::
  "'s::len Lib \<Rightarrow> 's SecureDht \<Rightarrow> InfoHash \<Rightarrow> bool \<Rightarrow> 's Value list list \<Rightarrow> bool option \<Rightarrow>
   's SecureDht \<times> Certificate option list" where
  "findCertificate_get lib dht node cb batches completion =
     (case Dht_get (findCertificate_values lib node cb) (findCertificate_done cb)
             (Some (TypeFilter (CERTIFICATE_TYPE lib))) batches completion (False, dht, [])
      of (found, dht', calls) \<Rightarrow> (dht', calls))"

text \<open>
  \<^verbatim>\<open>SecureDht::findCertificate(node, cb)\<close>: the node afterwards and the calls made to
  \<open>cb\<close>.
\<close>

definition findCertificate ::
  "'s::len Lib \<Rightarrow> 's SecureDht \<Rightarrow> InfoHash \<Rightarrow> bool \<Rightarrow> 's Value list list \<Rightarrow> bool option \<Rightarrow>
   's SecureDht \<times> Certificate option list" where
  "findCertificate lib dht node cb batches completion =
     (let b = getCertificate lib dht node in
      if (case b of None \<Rightarrow> False | Some c \<Rightarrow> Certificate_bool c)
        then (dht, if cb then [b] else [])
      else (case localQueryMethod_m dht of
              None \<Rightarrow> findCertificate_get lib dht node cb batches completion
            | Some q \<Rightarrow>
                (case q node of
                   [] \<Rightarrow> findCertificate_get lib dht node cb batches completion
                 | front # _ \<Rightarrow>
                     ((case nodesCertificates_m dht node of
                         None \<Rightarrow> dht\<lparr>nodesCertificates_m := (nodesCertificates_m dht)(node \<mapsto> front)\<rparr>
                       | Some _ \<Rightarrow> dht),
                      if cb then [Some front] else []))))"

section \<open>Announcing a signed value\<close>







section \<open>Notions used in the statements\<close>

text \<open>
  The certificate \<open>registerCertificate(node, v->data)\<close> hands back for a value
  \<open>v\<close>: the certificate its data parses to, when that certificate's public-key id is
  \<open>node\<close>. The values \<^verbatim>\<open>findCertificate\<close>'s get delivers: those of the batches
  that pass its type filter, in order. \<open>fc_step\<close> is one delivery to the first lambda.
\<close>

definition offered :: "'s::len Lib \<Rightarrow> InfoHash \<Rightarrow> 's Value \<Rightarrow> Certificate option" where
  "offered lib node v =
     (case Certificate_import lib (data v) of
        None \<Rightarrow> None
      | Some crt \<Rightarrow>
          if node = PublicKey_getId lib (Certificate_getPublicKey lib crt) then Some crt else None)"

definition delivered :: "'s::len Lib \<Rightarrow> 's Value list list \<Rightarrow> 's Value list" where
  "delivered lib batches =
     concat (map (filter (passes (Some (TypeFilter (CERTIFICATE_TYPE lib))))) batches)"

definition fc_step ::
  "'s::len Lib \<Rightarrow> InfoHash \<Rightarrow> bool \<Rightarrow> 's Value list \<Rightarrow> 's find_state \<Rightarrow> 's find_state" where
  "fc_step lib node cb = (\<lambda>values st. snd (findCertificate_values lib node cb
       (filter (passes (Some (TypeFilter (CERTIFICATE_TYPE lib)))) values) st))"



section \<open>A small instance of the collaborators\<close>

text \<open>
  A concrete library on which the definitions above can be run: a key is its handle, a
  signature is the signer's handle in front of the signed bytes, a cyphertext is the
  recipient's handle in front of the plaintext, a certificate is imported from the one
  byte of its handle, and a value body is laid out as owner, recipient, length of the
  signature, signature, data. Sequence numbers have 16 bits.
\<close>

definition toy_getId :: "PublicKey \<Rightarrow> InfoHash" where
  "toy_getId p = (case pk p of None \<Rightarrow> 0 | Some n \<Rightarrow> of_nat n)"

definition toy_getToSign :: "16 Value \<Rightarrow> Blob" where
  "toy_getToSign v = ucast (toy_getId (owner v)) # ucast (recipient v) # data v"

definition toy_getToEncrypt :: "16 Value \<Rightarrow> Blob" where
  "toy_getToEncrypt v =
     ucast (toy_getId (owner v)) # ucast (recipient v) # of_nat (length (signature v)) #
       signature v @ data v"

definition toy_unpackBody :: "16 Value \<Rightarrow> Blob \<Rightarrow> 16 Value option" where
  "toy_unpackBody ret b =
     (case b of
        ow # rc # n # rest \<Rightarrow>
          if unat n \<le> length rest then
            Some (ret\<lparr>flags := ValueFlags True False True,
                       owner := PublicKey (Some (unat ow)),
                       recipient := ucast rc,
                       signature := take (unat n) rest,
                       data := drop (unat n) rest\<rparr>)
          else None
      | _ \<Rightarrow> None)"

definition toy_type :: "16 ValueType" where
  "toy_type = \<lparr>id_t = 8, storePolicy = (\<lambda>id v nid a al. True),
                editPolicy = (\<lambda>id old new nid a al. False)\<rparr>"

definition toy_lib :: "16 Lib" where
  "toy_lib = \<lparr>
     PublicKey_getId = toy_getId,
     PublicKey_checkSignature =
       (\<lambda>p d sg. case pk p of None \<Rightarrow> False | Some n \<Rightarrow> sg = of_nat n # d),
     PublicKey_encrypt = (\<lambda>p d. case pk p of None \<Rightarrow> [] | Some n \<Rightarrow> of_nat n # d),
     PrivateKey_getPublicKey = (\<lambda>k. PublicKey (key k)),
     PrivateKey_sign = (\<lambda>k d. case key k of None \<Rightarrow> [] | Some n \<Rightarrow> of_nat n # d),
     PrivateKey_decrypt =
       (\<lambda>k c. case c of [] \<Rightarrow> None
              | x # d \<Rightarrow> if key k = Some (unat x) then Some d else None),
     Certificate_import =
       (\<lambda>b. case b of [x] \<Rightarrow> Some (Certificate (Some (unat x)) None) | _ \<Rightarrow> None),
     Certificate_getPublicKey = (\<lambda>c. PublicKey (cert c)),
     Certificate_pack = (\<lambda>c. case cert c of None \<Rightarrow> [] | Some n \<Rightarrow> [of_nat n]),
     Value_getToSign = toy_getToSign,
     Value_getToEncrypt = toy_getToEncrypt,
     Value_unpackBody = toy_unpackBody,
     InfoHash_get = (\<lambda>str. of_nat (length str)),
     InfoHash_toString = (\<lambda>h. if h = 0 then ''0'' else ''1''),
     gnutls_global_init = True,
     DEFAULT_TYPES = [toy_type],
     DEFAULT_INSECURE_TYPES = [],
     CERTIFICATE_TYPE = toy_type\<lparr>id_t := 9\<rparr>,
     no_key_id = 0\<rparr>"

text \<open>Keys, certificates and nodes of the small instance.\<close>

definition toy_key :: "nat \<Rightarrow> PrivateKey" where
  "toy_key n = PrivateKey (Some n) (Some n)"

definition toy_cert :: "nat \<Rightarrow> Certificate" where
  "toy_cert n = Certificate (Some n) None"

definition toy_node :: "nat \<Rightarrow> 16 SecureDht" where
  "toy_node n = \<lparr>myid = 7, key_m = Some (toy_key n), certificate_m = Some (toy_cert n),
     nodesCertificates_m = Map.empty, localQueryMethod_m = None, types = [], puts = []\<rparr>"

definition toy_value :: "16 Value" where
  "toy_value = (Value_id 42)\<lparr>data := [104, 105]\<rparr>"

text \<open>
  A value signed by key 1 of the small instance, and its successor with the next sequence
  number.
\<close>

definition toy_old :: "16 Value" where
  "toy_old = \<lparr>id_v = 42, type_v = 8, flags = ValueFlags True False False,
     owner = PublicKey (Some 1), recipient = 0, data = [104, 105], cypher = [],
     signature = [1, 1, 0, 104, 105], seq = 1\<rparr>"

definition toy_new :: "16 Value" where
  "toy_new = toy_old\<lparr>seq := 2\<rparr>"

text \<open>
  Node 2 of the small instance as its constructor leaves it with sockets 1 and 1, and the
  two values \<open>encrypt\<close> makes of \<open>toy_value\<close> on node 1 for the key of node 2: the
  signed inner value and the encrypted outer one.
\<close>

definition toy_B :: "16 SecureDht" where
  "toy_B = \<lparr>myid = 6, key_m = Some (toy_key 2), certificate_m = Some (toy_cert 2),
     nodesCertificates_m = Map.empty, localQueryMethod_m = None,
     types = [secureType toy_lib toy_type, toy_type\<lparr>id_t := 9\<rparr>],
     puts = [(2, Value_typed (toy_type\<lparr>id_t := 9\<rparr>) [2] 1)]\<rparr>"

definition toy_inner :: "16 Value" where
  "toy_inner = \<lparr>id_v = 42, type_v = 0, flags = ValueFlags True False True,
     owner = PublicKey (Some 1), recipient = 2, data = [104, 105], cypher = [],
     signature = [1, 1, 2, 104, 105], seq = 0\<rparr>"

definition toy_outer :: "16 Value" where
  "toy_outer = (Value_id 42)\<lparr>flags := ValueFlags False True False,
     cypher := [2, 1, 2, 5, 1, 1, 2, 104, 105, 104, 105]\<rparr>"

text \<open>
  A value of the certificate type carrying the certificate of key \<open>n\<close>; the signed value
  of above with the largest 16-bit sequence number; node 1 while it announces \<open>pv\<close>
  under the hash 3.
\<close>

definition toy_cert_value :: "nat \<Rightarrow> 16 Value" where
  "toy_cert_value n = Value_typed (CERTIFICATE_TYPE toy_lib) [of_nat n] 1"



text \<open>
  An edit of \<open>toy_old\<close> that names key 2 as owner and is signed by key 1, the old
  owner: its signature verifies under key 1 and not under key 2.
\<close>

definition toy_forged :: "16 Value" where
  "toy_forged = toy_old\<lparr>owner := PublicKey (Some 2), seq := 2,
     signature := [1, 2, 0, 104, 105]\<rparr>"

text \<open>
  Node 2 as its constructor leaves it when no private key is given. An encrypted value
  with the cyphertext \<open>c\<close>; a user filter that rejects the data \<open>[7]\<close>; and a batch
  for node 2 in which every stage of the receive pipeline has a value only it drops: a
  plain value, one the filter rejects, a signed value, a signed one the filter rejects,
  one with a stale signature, a value encrypted for node 2, one whose inner recipient is
  3, one whose inner signature is wrong, one the filter rejects after decryption, and one
  encrypted for key 3.
\<close>

definition toy_keyless :: "16 SecureDht" where
  "toy_keyless = toy_B\<lparr>key_m := None\<rparr>"

definition toy_sealed :: "Blob \<Rightarrow> 16 Value" where
  "toy_sealed c = (Value_id 42)\<lparr>flags := ValueFlags False True False, cypher := c\<rparr>"

definition toy_filter :: "16 Value \<Rightarrow> bool" where
  "toy_filter v = (data v \<noteq> [7])"

definition toy_batch :: "16 Value list" where
  "toy_batch =
     [toy_value,
      toy_value\<lparr>data := [7]\<rparr>,
      toy_old,
      toy_old\<lparr>data := [7], signature := [1, 1, 0, 7]\<rparr>,
      toy_old\<lparr>data := [104]\<rparr>,
      toy_sealed [2, 1, 2, 5, 1, 1, 2, 104, 105, 104, 105],
      toy_sealed [2, 1, 3, 5, 1, 1, 3, 104, 105, 104, 105],
      toy_sealed [2, 1, 2, 5, 9, 9, 9, 9, 9, 104, 105],
      toy_sealed [2, 1, 2, 4, 1, 1, 2, 7, 7],
      toy_sealed [3, 1, 2, 5, 1, 1, 2, 104, 105, 104, 105]]"

section \<open>The policies of a wrapped type\<close>

lemmas toy_defs = toy_lib_def toy_getId_def toy_getToSign_def toy_getToEncrypt_def
  toy_unpackBody_def toy_type_def toy_key_def toy_cert_def toy_node_def toy_value_def
  PublicKey_bool_def

text \<open>
  C5. The wrapped \<open>storePolicy\<close> rejects a signed value that is not encrypted and whose
  signature does not verify under its owner's key over \<open>getToSign\<close>; for every other
  value (not signed, or encrypted, or signed with a signature that verifies) its answer is
  the answer of the inner \<open>storePolicy\<close>.
\<close>

theorem storePolicy_secureType:
  "storePolicy (secureType lib type) hash v nid a al =
     (if isSigned (flags v) \<and> \<not> isEncrypted (flags v) \<and>
         \<not> PublicKey_checkSignature lib (owner v) (Value_getToSign lib v) (signature v)
      then False
      else storePolicy type hash v nid a al)"
  by (simp add: secureType_def)

theorem storePolicy_secureType_witness:
  "storePolicy (secureType toy_lib toy_type) 5 toy_old 6 [] 0 \<and>
   \<not> storePolicy (secureType toy_lib toy_type) 5 (toy_old\<lparr>data := [104]\<rparr>) 6 [] 0 \<and>
   storePolicy toy_type 5 (toy_old\<lparr>data := [104]\<rparr>) 6 [] 0"
  using storePolicy_secureType [of toy_lib toy_type 5 toy_old 6 "[]" 0]
    storePolicy_secureType [of toy_lib toy_type 5 "toy_old\<lparr>data := [104]\<rparr>" 6 "[]" 0]
  by (simp add: toy_old_def toy_defs)

text \<open>
  C3. The wrapped \<open>editPolicy\<close> is meant to reject an edit that changes the owner
  (its warning reads "Edition forbidden: owner changed."), but its test
  \<^verbatim>\<open>o->owner != n->owner\<close> compares only whether each key is set. So for an old value
  that is signed and not encrypted, an edit whose owner key is set, whose signature
  verifies under the key of the old owner and whose sequence number has grown is
  accepted, whether or not its owner is the old one and whether or not its signature
  verifies under its own owner's key.
\<close>

theorem editPolicy_secureType_owner_change:
  assumes "isSigned (flags old)" and "\<not> isEncrypted (flags old)"
    and "PublicKey_bool (owner old)" and "PublicKey_bool (owner new)"
    and "PublicKey_checkSignature lib (owner old) (Value_getToSign lib new) (signature new)"
    and "seq old < seq new"
  shows "editPolicy (secureType lib type) hash old new nid a al"
proof -
  have ne: "seq old \<noteq> seq new" and nl: "\<not> seq new < seq old"
    using assms(6) by auto
  show ?thesis
    unfolding secureType_def using assms(1-5) ne nl by simp
qed

theorem editPolicy_secureType_owner_change_witness:
  "isSigned (flags toy_old) \<and> \<not> isEncrypted (flags toy_old) \<and>
   PublicKey_bool (owner toy_old) \<and> PublicKey_bool (owner toy_forged) \<and>
   PublicKey_checkSignature toy_lib (owner toy_old) (Value_getToSign toy_lib toy_forged)
     (signature toy_forged) \<and>
   seq toy_old < seq toy_forged \<and>
   owner toy_forged \<noteq> owner toy_old \<and>
   \<not> PublicKey_checkSignature toy_lib (owner toy_forged) (Value_getToSign toy_lib toy_forged)
       (signature toy_forged) \<and>
   editPolicy (secureType toy_lib toy_type) 5 toy_old toy_forged 6 [] 0"
proof -
  have s: "isSigned (flags toy_old)" and e: "\<not> isEncrypted (flags toy_old)"
    and bo: "PublicKey_bool (owner toy_old)" and bn: "PublicKey_bool (owner toy_forged)"
    and sq: "seq toy_old < seq toy_forged"
    and ch: "owner toy_forged \<noteq> owner toy_old"
    by (simp_all add: toy_old_def toy_forged_def PublicKey_bool_def)
  have sg: "PublicKey_checkSignature toy_lib (owner toy_old) (Value_getToSign toy_lib toy_forged)
     (signature toy_forged)"
    and ns: "\<not> PublicKey_checkSignature toy_lib (owner toy_forged)
       (Value_getToSign toy_lib toy_forged) (signature toy_forged)"
    by (simp_all add: toy_old_def toy_forged_def toy_defs)
  from editPolicy_secureType_owner_change [OF s e bo bn sg sq] s e bo bn sg sq ch ns
  show ?thesis by blast
qed

text \<open>
  C4, as the claim states it, fails: the inner \<open>editPolicy\<close> of \<open>toy_type\<close> rejects
  every edit, the old value is signed and not encrypted, the owner, signature and
  sequence-number checks pass, and the wrapped policy accepts the edit.
\<close>

theorem editPolicy_secureType_inner_rejects_wrapped_accepts:
  "isSigned (flags toy_old) \<and> \<not> isEncrypted (flags toy_old) \<and>
   owner toy_new = owner toy_old \<and>
   PublicKey_checkSignature toy_lib (owner toy_new) (Value_getToSign toy_lib toy_new)
     (signature toy_new) \<and>
   seq toy_old < seq toy_new \<and>
   \<not> editPolicy toy_type 5 toy_old toy_new 6 [] 0 \<and>
   editPolicy (secureType toy_lib toy_type) 5 toy_old toy_new 6 [] 0"
  by (simp add: secureType_def toy_old_def toy_new_def toy_defs)

text \<open>
  C4, amended. When the old value is signed and not encrypted and the owner, signature and
  sequence-number checks all pass, the wrapped \<open>editPolicy\<close> accepts the edit, whatever
  the inner \<open>editPolicy\<close> of the type would answer: on this path it is not consulted.
\<close>

theorem editPolicy_secureType_accepts:
  assumes "isSigned (flags old)" and "\<not> isEncrypted (flags old)"
    and "owner new = owner old"
    and "PublicKey_checkSignature lib (owner new) (Value_getToSign lib new) (signature new)"
    and "seq old < seq new \<or>
          (seq new = seq old \<and> Value_getToSign lib new = Value_getToSign lib old)"
  shows "editPolicy (secureType lib type) hash old new nid a al"
proof -
  have ow: "\<not> PublicKey_bool (owner old) \<noteq> PublicKey_bool (owner new)"
    using assms(3) by simp
  have sg: "PublicKey_checkSignature lib (owner old) (Value_getToSign lib new) (signature new)"
    using assms(3,4) by simp
  have sq: "if seq old = seq new then Value_getToSign lib old = Value_getToSign lib new
            else \<not> seq new < seq old"
    using assms(5) by (cases "seq old = seq new") auto
  have "editPolicy (secureType lib type) hash old new nid a al =
          (if seq old = seq new then Value_getToSign lib old = Value_getToSign lib new
           else \<not> seq new < seq old)"
    unfolding secureType_def using assms(1,2) ow sg by simp
  with sq show ?thesis by simp
qed

theorem editPolicy_secureType_accepts_witness:
  "isSigned (flags toy_old) \<and> \<not> isEncrypted (flags toy_old) \<and>
   owner toy_new = owner toy_old \<and>
   PublicKey_checkSignature toy_lib (owner toy_new) (Value_getToSign toy_lib toy_new)
     (signature toy_new) \<and>
   seq toy_old < seq toy_new \<and>
   editPolicy (secureType toy_lib toy_type) 5 toy_old toy_new 6 [] 0"
proof -
  have s: "isSigned (flags toy_old)" and e: "\<not> isEncrypted (flags toy_old)"
    and ow: "owner toy_new = owner toy_old"
    by (simp_all add: toy_old_def toy_new_def)
  have sg: "PublicKey_checkSignature toy_lib (owner toy_new) (Value_getToSign toy_lib toy_new)
     (signature toy_new)"
    by (simp add: toy_old_def toy_new_def toy_defs)
  have sq: "seq toy_old < seq toy_new"
    by (simp add: toy_old_def toy_new_def)
  from sq have sq': "seq toy_old < seq toy_new \<or>
    (seq toy_new = seq toy_old \<and>
     Value_getToSign toy_lib toy_new = Value_getToSign toy_lib toy_old)" by simp
  from editPolicy_secureType_accepts [OF s e ow sg sq'] s e ow sg sq show ?thesis by blast
qed

section \<open>Registering a certificate\<close>

text \<open>
  C10. \<open>registerCertificate(node, blob)\<close> returns null and leaves the node, and so its
  certificate cache, as it was when the blob does not parse as a certificate or the id of
  the parsed certificate's public key is not \<open>node\<close>; when that id is \<open>node\<close> the
  cache entry of \<open>node\<close> becomes the parsed certificate, nothing else changes, and
  the stored certificate is returned.
\<close>

theorem registerCertificate_cases:
  "(Certificate_import lib dat = None \<longrightarrow> registerCertificate lib dht node dat = (None, dht)) \<and>
   (\<forall>crt. Certificate_import lib dat = Some crt \<and>
          PublicKey_getId lib (Certificate_getPublicKey lib crt) \<noteq> node \<longrightarrow>
          registerCertificate lib dht node dat = (None, dht)) \<and>
   (\<forall>crt. Certificate_import lib dat = Some crt \<and>
          PublicKey_getId lib (Certificate_getPublicKey lib crt) = node \<longrightarrow>
          registerCertificate lib dht node dat =
            (Some crt, dht\<lparr>nodesCertificates_m := (nodesCertificates_m dht)(node \<mapsto> crt)\<rparr>))"
proof (cases "Certificate_import lib dat")
  case None
  then show ?thesis by (simp add: registerCertificate_def)
next
  case (Some c)
  show ?thesis
  proof (cases "PublicKey_getId lib (Certificate_getPublicKey lib c) = node")
    case True
    have "registerCertificate lib dht node dat =
            (Some c, dht\<lparr>nodesCertificates_m := (nodesCertificates_m dht)(node \<mapsto> c)\<rparr>)"
      unfolding registerCertificate_def Some Let_def using True
      by (cases "nodesCertificates_m dht node") auto
    with Some True show ?thesis by auto
  next
    case False
    have "registerCertificate lib dht node dat = (None, dht)"
      unfolding registerCertificate_def Some Let_def using False by auto
    with Some False show ?thesis by auto
  qed
qed

theorem registerCertificate_cases_witness:
  "Certificate_import toy_lib [] = None \<and>
   registerCertificate toy_lib (toy_node 1) 2 [] = (None, toy_node 1) \<and>
   Certificate_import toy_lib [3] = Some (toy_cert 3) \<and>
   PublicKey_getId toy_lib (Certificate_getPublicKey toy_lib (toy_cert 3)) \<noteq> 2 \<and>
   registerCertificate toy_lib (toy_node 1) 2 [3] = (None, toy_node 1) \<and>
   Certificate_import toy_lib [2] = Some (toy_cert 2) \<and>
   PublicKey_getId toy_lib (Certificate_getPublicKey toy_lib (toy_cert 2)) = 2 \<and>
   registerCertificate toy_lib (toy_node 1) 2 [2] =
     (Some (toy_cert 2),
      (toy_node 1)\<lparr>nodesCertificates_m := (nodesCertificates_m (toy_node 1))(2 \<mapsto> toy_cert 2)\<rparr>)"
proof -
  have a: "Certificate_import toy_lib [] = None"
    and b: "Certificate_import toy_lib [3] = Some (toy_cert 3)"
    and b': "PublicKey_getId toy_lib (Certificate_getPublicKey toy_lib (toy_cert 3)) \<noteq> 2"
    and c: "Certificate_import toy_lib [2] = Some (toy_cert 2)"
    and c': "PublicKey_getId toy_lib (Certificate_getPublicKey toy_lib (toy_cert 2)) = 2"
    by (simp_all add: toy_defs)
  from registerCertificate_cases [of toy_lib "[]" "toy_node 1" 2]
    registerCertificate_cases [of toy_lib "[3]" "toy_node 1" 2]
    registerCertificate_cases [of toy_lib "[2]" "toy_node 1" 2]
    a b b' c c' show ?thesis by blast
qed

section \<open>What the wrapped callback delivers\<close>

text \<open>
  The value the loop keeps for \<open>v\<close>, stage by stage. An encrypted value needs a
  private key on the node, a cyphertext that key decrypts, a body that unpacks, an inner
  recipient equal to the id of the node, an inner signature that verifies under the inner
  owner and the consent of the user's filter, and what is kept is the decrypted value. A
  signed value needs a signature that verifies under its owner and the consent of the
  filter; a plain value the consent of the filter.
\<close>

lemma keepValue_stages:
  "keepValue lib dht flt v =
     (if isEncrypted (flags v) then
        (case key_m dht of
           None \<Rightarrow> None
         | Some k \<Rightarrow>
             (case PrivateKey_decrypt lib k (cypher v) of
                None \<Rightarrow> None
              | Some plain \<Rightarrow>
                  (case Value_unpackBody lib (Value_id (id_v v)) plain of
                     None \<Rightarrow> None
                   | Some d \<Rightarrow>
                       if recipient d = getId lib dht \<and>
                          PublicKey_checkSignature lib (owner d) (Value_getToSign lib d)
                            (signature d) \<and>
                          (case flt of None \<Rightarrow> True | Some f \<Rightarrow> f d)
                       then Some d else None)))
      else if isSigned (flags v) then
        (if PublicKey_checkSignature lib (owner v) (Value_getToSign lib v) (signature v) \<and>
            (case flt of None \<Rightarrow> True | Some f \<Rightarrow> f v)
         then Some v else None)
      else (if (case flt of None \<Rightarrow> True | Some f \<Rightarrow> f v) then Some v else None))"
  by (simp add: keepValue_def decrypt_def passes_def split: option.splits)

text \<open>
  C8. For a batch handed to the wrapped callback, the survivors of the pipeline are, in
  the order of the batch: for an encrypted value its decrypted value, when the node has
  a private key, the value decrypts and unpacks, its inner recipient is the id of the
  node, its inner signature verifies and the user's filter (if any) accepts it; a signed
  value whose signature verifies and which the filter accepts; a plain value the filter
  accepts. With no survivor the user's callback is not called (its state \<open>u\<close> is
  untouched) and the wrapper answers true; otherwise the user's callback is called once,
  with all survivors, and its answer and state are the wrapper's. With no user callback
  the wrapper answers true.
\<close>

theorem getCallbackFilter_delivery:
  "getCallbackFilter lib dht (Some cb) flt vals u =
     (if tmpvals lib dht flt vals = [] then (True, u)
      else cb (tmpvals lib dht flt vals) u) \<and>
   getCallbackFilter lib dht None flt vals u = (True, u) \<and>
   tmpvals lib dht flt vals =
     List.map_filter
       (\<lambda>v. if isEncrypted (flags v) then
              (case key_m dht of
                 None \<Rightarrow> None
               | Some k \<Rightarrow>
                   (case PrivateKey_decrypt lib k (cypher v) of
                      None \<Rightarrow> None
                    | Some plain \<Rightarrow>
                        (case Value_unpackBody lib (Value_id (id_v v)) plain of
                           None \<Rightarrow> None
                         | Some d \<Rightarrow>
                             if recipient d = getId lib dht \<and>
                                PublicKey_checkSignature lib (owner d) (Value_getToSign lib d)
                                  (signature d) \<and>
                                (case flt of None \<Rightarrow> True | Some f \<Rightarrow> f d)
                             then Some d else None)))
            else if isSigned (flags v) then
              (if PublicKey_checkSignature lib (owner v) (Value_getToSign lib v) (signature v) \<and>
                  (case flt of None \<Rightarrow> True | Some f \<Rightarrow> f v)
               then Some v else None)
            else (if (case flt of None \<Rightarrow> True | Some f \<Rightarrow> f v) then Some v else None))
       vals"
proof -
  have "tmpvals lib dht flt vals = List.map_filter (keepValue lib dht flt) vals"
    by (induction vals) (simp_all add: List.map_filter_simps split: option.splits)
  moreover have "keepValue lib dht flt = (\<lambda>v. if isEncrypted (flags v) then
              (case key_m dht of
                 None \<Rightarrow> None
               | Some k \<Rightarrow>
                   (case PrivateKey_decrypt lib k (cypher v) of
                      None \<Rightarrow> None
                    | Some plain \<Rightarrow>
                        (case Value_unpackBody lib (Value_id (id_v v)) plain of
                           None \<Rightarrow> None
                         | Some d \<Rightarrow>
                             if recipient d = getId lib dht \<and>
                                PublicKey_checkSignature lib (owner d) (Value_getToSign lib d)
                                  (signature d) \<and>
                                (case flt of None \<Rightarrow> True | Some f \<Rightarrow> f d)
                             then Some d else None)))
            else if isSigned (flags v) then
              (if PublicKey_checkSignature lib (owner v) (Value_getToSign lib v) (signature v) \<and>
                  (case flt of None \<Rightarrow> True | Some f \<Rightarrow> f v)
               then Some v else None)
            else (if (case flt of None \<Rightarrow> True | Some f \<Rightarrow> f v) then Some v else None))"
    by (rule ext) (rule keepValue_stages)
  ultimately show ?thesis by (simp add: getCallbackFilter_def Let_def)
qed

theorem getCallbackFilter_delivery_witness:
  "getCallbackFilter toy_lib toy_B (Some (\<lambda>vs n. (False, n + length vs))) (Some toy_filter)
      toy_batch (0::nat) = (False, 3) \<and>
   tmpvals toy_lib toy_B (Some toy_filter) toy_batch = [toy_value, toy_old, toy_inner] \<and>
   getCallbackFilter toy_lib toy_B (Some (\<lambda>vs n. (False, Suc n))) (Some toy_filter)
      [toy_value\<lparr>data := [7]\<rparr>, toy_old\<lparr>data := [104]\<rparr>] (0::nat) = (True, 0) \<and>
   tmpvals toy_lib toy_keyless None [toy_outer] = [] \<and>
   tmpvals toy_lib toy_B None [toy_outer] = [toy_inner]"
proof -
  have t1: "List.map_filter (keepValue toy_lib toy_B (Some toy_filter)) toy_batch =
      [toy_value, toy_old, toy_inner]"
    by (simp add: List.map_filter_simps keepValue_def decrypt_def passes_def getId_def
        toy_batch_def toy_filter_def toy_sealed_def toy_B_def toy_old_def toy_inner_def
        Value_id_def toy_defs)
  have t2: "List.map_filter (keepValue toy_lib toy_B (Some toy_filter))
      [toy_value\<lparr>data := [7]\<rparr>, toy_old\<lparr>data := [104]\<rparr>] = []"
    by (simp add: List.map_filter_simps keepValue_def decrypt_def passes_def getId_def
        toy_filter_def toy_B_def toy_old_def Value_id_def toy_defs)
  have t3: "List.map_filter (keepValue toy_lib toy_keyless None) [toy_outer] = []"
    by (simp add: List.map_filter_simps keepValue_def toy_keyless_def toy_outer_def
        toy_B_def Value_id_def)
  have t4: "List.map_filter (keepValue toy_lib toy_B None) [toy_outer] = [toy_inner]"
    by (simp add: List.map_filter_simps keepValue_def decrypt_def passes_def getId_def
        toy_B_def toy_outer_def toy_inner_def Value_id_def toy_defs)
  note k = keepValue_stages [symmetric]
  from getCallbackFilter_delivery [of toy_lib toy_B "\<lambda>vs n. (False, n + length vs)"
      "Some toy_filter" toy_batch "0::nat"]
    getCallbackFilter_delivery [of toy_lib toy_B "\<lambda>vs n. (False, Suc n)" "Some toy_filter"
      "[toy_value\<lparr>data := [7]\<rparr>, toy_old\<lparr>data := [104]\<rparr>]" "0::nat"]
    getCallbackFilter_delivery [of toy_lib toy_keyless "\<lambda>vs n. (False, Suc n)" None
      "[toy_outer]" "0::nat"]
    getCallbackFilter_delivery [of toy_lib toy_B "\<lambda>vs n. (False, Suc n)" None
      "[toy_outer]" "0::nat"]
  show ?thesis
    unfolding k t1 t2 t3 t4 by simp
qed

section \<open>Construction and the identity\<close>

text \<open>
  C2, as the claim states it, fails for the pair of sockets \<open>(-1, -1)\<close>: the key and the
  certificate have different public-key ids and the constructor returns without an error.
\<close>

theorem SecureDht_ctor_sockets_example:
  "PublicKey_getId toy_lib (PrivateKey_getPublicKey toy_lib (toy_key 1)) \<noteq>
     PublicKey_getId toy_lib (Certificate_getPublicKey toy_lib (toy_cert 2)) \<and>
   \<not> isl (SecureDht_ctor toy_lib (- 1) (- 1) (Some (toy_key 1), Some (toy_cert 2)) 0)"
  by (simp add: SecureDht_ctor_def toy_defs)

text \<open>The registrations of the constructor leave key, certificate and announcements alone.\<close>

lemma fold_registerType_members:
  "key_m (fold (registerType lib) ts d) = key_m d \<and>
   certificate_m (fold (registerType lib) ts d) = certificate_m d \<and>
   puts (fold (registerType lib) ts d) = puts d"
  by (induction ts arbitrary: d) (simp_all add: registerType_def Dht_registerType_def)

lemma fold_registerInsecureType_members:
  "key_m (fold registerInsecureType ts d) = key_m d \<and>
   certificate_m (fold registerInsecureType ts d) = certificate_m d \<and>
   puts (fold registerInsecureType ts d) = puts d"
  by (induction ts arbitrary: d) (simp_all add: registerInsecureType_def Dht_registerType_def)

lemma SecureDht_ctor_open:
  assumes "\<not> (s < 0 \<and> s6 < 0)"
  shows "SecureDht_ctor lib s s6 ident rnd = Inl Certificate_key_mismatch \<longleftrightarrow>
     gnutls_global_init lib \<and>
     (\<exists>k c. fst ident = Some k \<and> snd ident = Some c \<and>
        PublicKey_getId lib (Certificate_getPublicKey lib c) \<noteq>
          PublicKey_getId lib (PrivateKey_getPublicKey lib k))"
    and "SecureDht_ctor lib s s6 ident rnd = Inl GnuTLS_init_failed \<longleftrightarrow> \<not> gnutls_global_init lib"
  using assms
  by (auto simp: SecureDht_ctor_def Let_def registerInsecureType_def Dht_registerType_def
      fold_registerType_members fold_registerInsecureType_members
      split: option.splits)

text \<open>
  C2, amended. When at least one socket is not negative, constructing with a key and a
  certificate whose public-key ids differ raises an error: the mismatch of certificate and
  key, or, before it, the failure of the GnuTLS initialisation. When both sockets are
  negative the constructor returns before any check and raises nothing, whatever the
  identity is. No construction raises the mismatch error when the two ids agree or the key
  or the certificate is absent.
\<close>

theorem SecureDht_ctor_identity:
  "((0 \<le> s \<or> 0 \<le> s6) \<and>
    PublicKey_getId lib (PrivateKey_getPublicKey lib k) \<noteq>
      PublicKey_getId lib (Certificate_getPublicKey lib c) \<longrightarrow>
    SecureDht_ctor lib s s6 (Some k, Some c) rnd =
      Inl (if gnutls_global_init lib then Certificate_key_mismatch else GnuTLS_init_failed)) \<and>
   (s < 0 \<and> s6 < 0 \<longrightarrow>
    (case SecureDht_ctor lib s s6 ident rnd of
       Inl e \<Rightarrow> False
     | Inr dht \<Rightarrow> key_m dht = fst ident \<and> certificate_m dht = snd ident \<and>
                  types dht = [] \<and> puts dht = [])) \<and>
   ((\<forall>k' c'. fst ident = Some k' \<and> snd ident = Some c' \<longrightarrow>
       PublicKey_getId lib (PrivateKey_getPublicKey lib k') =
         PublicKey_getId lib (Certificate_getPublicKey lib c')) \<longrightarrow>
    SecureDht_ctor lib s s6 ident rnd \<noteq> Inl Certificate_key_mismatch)"
proof (intro conjI impI)
  assume a: "(0 \<le> s \<or> 0 \<le> s6) \<and>
    PublicKey_getId lib (PrivateKey_getPublicKey lib k) \<noteq>
      PublicKey_getId lib (Certificate_getPublicKey lib c)"
  then have ns: "\<not> (s < 0 \<and> s6 < 0)" by auto
  show "SecureDht_ctor lib s s6 (Some k, Some c) rnd =
      Inl (if gnutls_global_init lib then Certificate_key_mismatch else GnuTLS_init_failed)"
  proof (cases "gnutls_global_init lib")
    case True
    with a SecureDht_ctor_open(1) [OF ns, of lib "(Some k, Some c)" rnd] show ?thesis by auto
  next
    case False
    with SecureDht_ctor_open(2) [OF ns, of lib "(Some k, Some c)" rnd] show ?thesis by auto
  qed
next
  assume "s < 0 \<and> s6 < 0"
  then show "case SecureDht_ctor lib s s6 ident rnd of
       Inl e \<Rightarrow> False
     | Inr dht \<Rightarrow> key_m dht = fst ident \<and> certificate_m dht = snd ident \<and>
                  types dht = [] \<and> puts dht = []"
    by (simp add: SecureDht_ctor_def)
next
  assume ag: "\<forall>k' c'. fst ident = Some k' \<and> snd ident = Some c' \<longrightarrow>
       PublicKey_getId lib (PrivateKey_getPublicKey lib k') =
         PublicKey_getId lib (Certificate_getPublicKey lib c')"
  show "SecureDht_ctor lib s s6 ident rnd \<noteq> Inl Certificate_key_mismatch"
  proof (cases "s < 0 \<and> s6 < 0")
    case True
    then show ?thesis by (simp add: SecureDht_ctor_def)
  next
    case False
    from ag SecureDht_ctor_open(1) [OF False, of lib ident rnd] show ?thesis by auto
  qed
qed

theorem SecureDht_ctor_identity_witness:
  "(0::int) \<le> 1 \<and>
   PublicKey_getId toy_lib (PrivateKey_getPublicKey toy_lib (toy_key 1)) \<noteq>
     PublicKey_getId toy_lib (Certificate_getPublicKey toy_lib (toy_cert 2)) \<and>
   SecureDht_ctor toy_lib 1 (- 1) (Some (toy_key 1), Some (toy_cert 2)) 0 =
     Inl Certificate_key_mismatch \<and>
   SecureDht_ctor toy_lib 1 (- 1) (Some (toy_key 2), Some (toy_cert 2)) 0 \<noteq>
     Inl Certificate_key_mismatch \<and>
   SecureDht_ctor toy_lib 1 (- 1) (None, Some (toy_cert 2)) 0 \<noteq> Inl Certificate_key_mismatch \<and>
   \<not> isl (SecureDht_ctor toy_lib (- 1) (- 1) (Some (toy_key 1), Some (toy_cert 2)) 0)"
proof -
  have d: "PublicKey_getId toy_lib (PrivateKey_getPublicKey toy_lib (toy_key 1)) \<noteq>
     PublicKey_getId toy_lib (Certificate_getPublicKey toy_lib (toy_cert 2))"
    and e: "PublicKey_getId toy_lib (PrivateKey_getPublicKey toy_lib (toy_key 2)) =
     PublicKey_getId toy_lib (Certificate_getPublicKey toy_lib (toy_cert 2))"
    and g: "gnutls_global_init toy_lib"
    by (simp_all add: toy_defs)
  from SecureDht_ctor_identity [of 1 "- 1" toy_lib "toy_key 1" "toy_cert 2" 0
        "(Some (toy_key 2), Some (toy_cert 2))"]
    SecureDht_ctor_identity [of 1 "- 1" toy_lib "toy_key 1" "toy_cert 2" 0
        "(None, Some (toy_cert 2))"]
    SecureDht_ctor_identity [of "- 1" "- 1" toy_lib "toy_key 1" "toy_cert 2" 0
        "(Some (toy_key 1), Some (toy_cert 2))"]
    d e g show ?thesis by (auto split: sum.splits)
qed

section \<open>Encrypting\<close>

text \<open>
  C9, as the claim states it, fails on a node without a private key, which the
  constructor admits: \<open>toy_value\<close> is not flagged encrypted, and \<open>encrypt\<close>
  neither raises the error of an encrypted value nor returns a value (\<open>sign\<close>
  dereferences the null \<open>key_m\<close>).
\<close>

theorem encrypt_without_key_example:
  "SecureDht_ctor toy_lib 1 1 (None, Some (toy_cert 2)) 5 = Inr toy_keyless \<and>
   key_m toy_keyless = None \<and>
   \<not> isEncrypted (flags toy_value) \<and>
   encrypt toy_lib toy_keyless toy_value (PublicKey (Some 2)) = Inl Null_key"
  by (simp add: SecureDht_ctor_def toy_keyless_def toy_B_def registerType_def
      registerInsecureType_def Dht_registerType_def Dht_put_def Certificate_getId_def
      encrypt_def sign_def setRecipient_def Value_id_def toy_defs)

text \<open>
  C9, amended. \<open>encrypt(v, to)\<close> raises an error when \<open>v\<close> is flagged encrypted.
  Otherwise, on a node that holds a private key \<open>k\<close>, it sets the recipient of
  \<open>v\<close> to the id of \<open>to\<close>, signs \<open>v\<close> (owner \<open>k\<close>'s public key, flagged
  signed and not encrypted, the signature made by \<open>k\<close> over \<open>getToSign\<close> of the
  value as it then is) and returns a new value with the id of \<open>v\<close>, flagged
  encrypted, whose only content is the cyphertext of \<open>getToEncrypt\<close> of the signed
  \<open>v\<close> under \<open>to\<close>: what is encrypted is a signed value.
\<close>

theorem encrypt_result:
  "(isEncrypted (flags v) \<longrightarrow> encrypt lib dht v to = Inl Already_encrypted) \<and>
   (\<not> isEncrypted (flags v) \<and> key_m dht = Some k \<longrightarrow>
    (case encrypt lib dht v to of
       Inl e \<Rightarrow> False
     | Inr (v', nv) \<Rightarrow>
         recipient v' = PublicKey_getId lib to \<and>
         isSigned (flags v') \<and> \<not> isEncrypted (flags v') \<and>
         owner v' = PrivateKey_getPublicKey lib k \<and>
         signature v' =
           PrivateKey_sign lib k (Value_getToSign lib (v'\<lparr>signature := signature v\<rparr>)) \<and>
         id_v v' = id_v v \<and> type_v v' = type_v v \<and> data v' = data v \<and> seq v' = seq v \<and>
         nv = setCypher (Value_id (id_v v)) (PublicKey_encrypt lib to (Value_getToEncrypt lib v')) \<and>
         id_v nv = id_v v \<and> isEncrypted (flags nv) \<and>
         cypher nv = PublicKey_encrypt lib to (Value_getToEncrypt lib v') \<and>
         data nv = [] \<and> signature nv = [] \<and> owner nv = PublicKey None \<and> recipient nv = 0))"
  by (simp add: encrypt_def sign_def setRecipient_def setCypher_def Value_id_def Let_def)

theorem encrypt_result_witness:
  "\<not> isEncrypted (flags toy_value) \<and> key_m (toy_node 1) = Some (toy_key 1) \<and>
   encrypt toy_lib (toy_node 1) toy_value (PublicKey (Some 2)) =
     Inr (toy_value\<lparr>flags := ValueFlags True False True, owner := PublicKey (Some 1),
                    recipient := 2, signature := [1, 1, 2, 104, 105]\<rparr>,
          (Value_id 42)\<lparr>flags := ValueFlags False True False,
                         cypher := [2, 1, 2, 5, 1, 1, 2, 104, 105, 104, 105]\<rparr>) \<and>
   isEncrypted (flags (toy_value\<lparr>flags := ValueFlags False True False\<rparr>)) \<and>
   encrypt toy_lib (toy_node 1) (toy_value\<lparr>flags := ValueFlags False True False\<rparr>)
     (PublicKey (Some 2)) = Inl Already_encrypted"
proof -
  have a: "\<not> isEncrypted (flags toy_value)" and b: "key_m (toy_node 1) = Some (toy_key 1)"
    and c: "isEncrypted (flags (toy_value\<lparr>flags := ValueFlags False True False\<rparr>))"
    by (simp_all add: toy_defs Value_id_def)
  have d: "encrypt toy_lib (toy_node 1) toy_value (PublicKey (Some 2)) =
     Inr (toy_value\<lparr>flags := ValueFlags True False True, owner := PublicKey (Some 1),
                    recipient := 2, signature := [1, 1, 2, 104, 105]\<rparr>,
          (Value_id 42)\<lparr>flags := ValueFlags False True False, 
                         cypher := [2, 1, 2, 5, 1, 1, 2, 104, 105, 104, 105]\<rparr>)"
    by (simp add: encrypt_def sign_def setRecipient_def setCypher_def Value_id_def toy_defs)
  from encrypt_result [of "toy_value\<lparr>flags := ValueFlags False True False\<rparr>" toy_lib "toy_node 1"
      "PublicKey (Some 2)" "toy_key 1"] a b c d
  show ?thesis by simp
qed

section \<open>An encrypted value reaches its recipient\<close>

text \<open>What a successful construction and a successful \<open>encrypt\<close> establish.\<close>

lemma SecureDht_ctor_members:
  assumes "SecureDht_ctor lib s s6 ident rnd = Inr B"
  shows "key_m B = fst ident \<and> certificate_m B = snd ident"
  using assms
  by (auto simp: SecureDht_ctor_def Let_def registerInsecureType_def Dht_registerType_def
      Dht_put_def fold_registerType_members fold_registerInsecureType_members
      split: option.splits if_splits)

lemma encrypt_Inr:
  assumes "encrypt lib dht v to = Inr (v', nv)"
  shows "recipient v' = PublicKey_getId lib to \<and> data v' = data v \<and> id_v v' = id_v v \<and>
         isSigned (flags v') \<and> isEncrypted (flags nv) \<and> id_v nv = id_v v \<and>
         cypher nv = PublicKey_encrypt lib to (Value_getToEncrypt lib v')"
  using assms
  by (auto simp: encrypt_def sign_def setRecipient_def setCypher_def Value_id_def Let_def
      split: if_splits option.splits)

text \<open>
  C1. Let \<open>B\<close> be a node constructed with the identity \<open>(k, c)\<close>, the public-key
  ids of \<open>k\<close> and \<open>c\<close> agreeing, and let \<open>nv\<close> be the value \<open>encrypt\<close>
  returns, on any node \<open>A\<close>, for \<open>v\<close> and the public key of \<open>c\<close>, \<open>v'\<close> being
  the signed inner value. Suppose \<open>k\<close> decrypts what was encrypted for the key of
  \<open>c\<close>, the body of \<open>v'\<close> unpacks to a value \<open>r\<close> with the same recipient,
  owner, signature, data and \<open>getToSign\<close>, the signature of \<open>v'\<close> is valid, and
  the user's filter, if any, accepts \<open>r\<close>. Then the recipient of \<open>r\<close> is the id
  of \<open>B\<close>, the pipeline of \<open>B\<close> keeps exactly \<open>r\<close> of the batch \<open>[nv]\<close>,
  the user's callback is called with \<open>[r]\<close>, and the data of \<open>r\<close> is the data of
  \<open>v\<close>.
\<close>

theorem encrypted_value_delivered:
  assumes ident: "PublicKey_getId lib (PrivateKey_getPublicKey lib k) =
                  PublicKey_getId lib (Certificate_getPublicKey lib c)"
    and ctor: "SecureDht_ctor lib s s6 (Some k, Some c) rnd = Inr B"
    and enc: "encrypt lib A v (Certificate_getPublicKey lib c) = Inr (v', nv)"
    and dec: "PrivateKey_decrypt lib k
                (PublicKey_encrypt lib (Certificate_getPublicKey lib c) (Value_getToEncrypt lib v')) =
              Some (Value_getToEncrypt lib v')"
    and unp: "Value_unpackBody lib (Value_id (id_v nv)) (Value_getToEncrypt lib v') = Some r"
    and rt: "recipient r = recipient v' \<and> owner r = owner v' \<and> signature r = signature v' \<and>
             data r = data v' \<and> Value_getToSign lib r = Value_getToSign lib v'"
    and sg: "PublicKey_checkSignature lib (owner v') (Value_getToSign lib v') (signature v')"
    and fl: "passes flt r"
  shows "recipient r = getId lib B \<and>
         tmpvals lib B flt [nv] = [r] \<and>
         getCallbackFilter lib B (Some cb) flt [nv] u = cb [r] u \<and>
         data r = data v"
proof -
  from ctor have kB: "key_m B = Some k" using SecureDht_ctor_members by fastforce
  from encrypt_Inr [OF enc]
  have v': "recipient v' = PublicKey_getId lib (Certificate_getPublicKey lib c)"
    and dv: "data v' = data v"
    and nv: "isEncrypted (flags nv)"
      "cypher nv = PublicKey_encrypt lib (Certificate_getPublicKey lib c) (Value_getToEncrypt lib v')"
    by simp_all
  have id: "getId lib B = PublicKey_getId lib (Certificate_getPublicKey lib c)"
    using kB ident by (simp add: getId_def)
  have d: "decrypt lib B nv = Inr r"
    using nv kB dec unp by (simp add: decrypt_def)
  have keep: "keepValue lib B flt nv = Some r"
    using nv(1) kB d rt v' id sg fl by (simp add: keepValue_def)
  then have t: "tmpvals lib B flt [nv] = [r]" by simp
  then have "getCallbackFilter lib B (Some cb) flt [nv] u = cb [r] u"
    by (simp add: getCallbackFilter_def)
  with t rt v' id dv show ?thesis by simp
qed

theorem encrypted_value_delivered_witness:
  "PublicKey_getId toy_lib (PrivateKey_getPublicKey toy_lib (toy_key 2)) =
     PublicKey_getId toy_lib (Certificate_getPublicKey toy_lib (toy_cert 2)) \<and>
   SecureDht_ctor toy_lib 1 1 (Some (toy_key 2), Some (toy_cert 2)) 5 = Inr toy_B \<and>
   encrypt toy_lib (toy_node 1) toy_value (Certificate_getPublicKey toy_lib (toy_cert 2)) =
     Inr (toy_inner, toy_outer) \<and>
   recipient toy_inner = getId toy_lib toy_B \<and>
   tmpvals toy_lib toy_B None [toy_outer] = [toy_inner] \<and>
   getCallbackFilter toy_lib toy_B (Some (\<lambda>vs n. (True, n + length vs))) None [toy_outer] (0::nat) =
     (True, 1) \<and>
   data toy_inner = data toy_value"
proof -
  have ident: "PublicKey_getId toy_lib (PrivateKey_getPublicKey toy_lib (toy_key 2)) =
     PublicKey_getId toy_lib (Certificate_getPublicKey toy_lib (toy_cert 2))"
    by (simp add: toy_defs)
  have ctor: "SecureDht_ctor toy_lib 1 1 (Some (toy_key 2), Some (toy_cert 2)) 5 = Inr toy_B"
    by (simp add: SecureDht_ctor_def toy_B_def registerType_def registerInsecureType_def
        Dht_registerType_def Dht_put_def Certificate_getId_def toy_defs)
  have enc: "encrypt toy_lib (toy_node 1) toy_value (Certificate_getPublicKey toy_lib (toy_cert 2)) =
     Inr (toy_inner, toy_outer)"
    by (simp add: encrypt_def sign_def setRecipient_def setCypher_def Value_id_def
        toy_inner_def toy_outer_def toy_defs)
  have dec: "PrivateKey_decrypt toy_lib (toy_key 2)
                (PublicKey_encrypt toy_lib (Certificate_getPublicKey toy_lib (toy_cert 2))
                   (Value_getToEncrypt toy_lib toy_inner)) =
              Some (Value_getToEncrypt toy_lib toy_inner)"
    by (simp add: toy_inner_def toy_defs)
  have unp: "Value_unpackBody toy_lib (Value_id (id_v toy_outer)) (Value_getToEncrypt toy_lib toy_inner) =
      Some toy_inner"
    by (simp add: toy_inner_def toy_outer_def Value_id_def toy_defs)
  have rt: "recipient toy_inner = recipient toy_inner \<and> owner toy_inner = owner toy_inner \<and>
      signature toy_inner = signature toy_inner \<and> data toy_inner = data toy_inner \<and>
      Value_getToSign toy_lib toy_inner = Value_getToSign toy_lib toy_inner"
    by simp
  have sg: "PublicKey_checkSignature toy_lib (owner toy_inner) (Value_getToSign toy_lib toy_inner)
      (signature toy_inner)"
    by (simp add: toy_inner_def toy_defs)
  have fl: "passes None toy_inner" by (simp add: passes_def)
  from encrypted_value_delivered [OF ident ctor enc dec unp rt sg fl,
      of "\<lambda>vs n. (True, n + length vs)" "0::nat"] ident ctor enc
  show ?thesis by simp
qed

section \<open>Resolving a certificate on the DHT\<close>

text \<open>
  The loop of the first lambda stops at the first value that offers a certificate; once
  \<^verbatim>\<open>found\<close> is set nothing changes any more.
\<close>

lemma registerCertificate_offered:
  "fst (registerCertificate lib dht node (data v)) = offered lib node v"
  by (simp add: registerCertificate_def offered_def Let_def split: option.splits)

lemma registerCertificate_None:
  "registerCertificate lib dht node dat = (None, dht') \<Longrightarrow> dht' = dht"
  by (simp add: registerCertificate_def Let_def split: option.splits if_splits)

lemma findCertificate_loop_calls:
  "\<exists>dht'. snd (findCertificate_loop lib node cb vals (False, dht, calls)) =
     (case List.map_filter (offered lib node) vals of
        [] \<Rightarrow> (False, dht', calls)
      | crt # _ \<Rightarrow> (True, dht', if cb then calls @ [Some crt] else calls))"
proof (induction vals arbitrary: dht)
  case Nil
  then show ?case by (simp add: List.map_filter_simps)
next
  case (Cons v vals)
  obtain r dht1 where p: "registerCertificate lib dht node (data v) = (r, dht1)"
    by (cases "registerCertificate lib dht node (data v)")
  then have r: "offered lib node v = r"
    using registerCertificate_offered [of lib dht node v] by simp
  show ?case
  proof (cases r)
    case None
    with p r Cons.IH [of dht1] show ?thesis
      by (simp add: List.map_filter_simps)
  next
    case (Some crt)
    with p r show ?thesis
      by (simp add: List.map_filter_simps)
  qed
qed

lemma fold_found:
  "fold (fc_step lib node cb) batches (True, dht, calls) = (True, dht, calls)"
  by (induction batches) (simp_all add: fc_step_def findCertificate_values_def)

lemma fold_calls:
  "\<exists>dht'. fold (fc_step lib node cb) batches (False, dht, calls) =
     (case List.map_filter (offered lib node) (delivered lib batches) of
        [] \<Rightarrow> (False, dht', calls)
      | crt # _ \<Rightarrow> (True, dht', if cb then calls @ [Some crt] else calls))"
proof (induction batches arbitrary: dht)
  case Nil
  then show ?case by (simp add: delivered_def List.map_filter_simps)
next
  case (Cons b batches)
  let ?vals = "filter (passes (Some (TypeFilter (CERTIFICATE_TYPE lib)))) b"
  from findCertificate_loop_calls [of lib node cb ?vals dht calls]
  obtain dht1 where l: "snd (findCertificate_loop lib node cb ?vals (False, dht, calls)) =
     (case List.map_filter (offered lib node) ?vals of
        [] \<Rightarrow> (False, dht1, calls)
      | crt # _ \<Rightarrow> (True, dht1, if cb then calls @ [Some crt] else calls))" by blast
  have d: "List.map_filter (offered lib node) (delivered lib (b # batches)) =
     List.map_filter (offered lib node) ?vals @
     List.map_filter (offered lib node) (delivered lib batches)"
    by (simp add: delivered_def List.map_filter_def)
  show ?case
  proof (cases "List.map_filter (offered lib node) ?vals")
    case Nil
    with l have "fc_step lib node cb b (False, dht, calls) = (False, dht1, calls)"
      by (simp add: fc_step_def findCertificate_values_def)
    with Cons.IH [of dht1] d Nil show ?thesis by simp
  next
    case (Cons crt rest)
    with l have "fc_step lib node cb b (False, dht, calls) =
        (True, dht1, if cb then calls @ [Some crt] else calls)"
      by (simp add: fc_step_def findCertificate_values_def)
    with d Cons show ?thesis by (simp add: fold_found)
  qed
qed

lemma findCertificate_get_calls:
  "snd (findCertificate_get lib dht node cb batches completion) =
     (if cb then
        (case List.map_filter (offered lib node) (delivered lib batches) of
           [] \<Rightarrow> (if completion = None then [] else [None])
         | crt # _ \<Rightarrow> [Some crt])
      else [])"
proof -
  from fold_calls [of lib node cb batches dht "[]"]
  obtain dht' where f: "fold (fc_step lib node cb) batches (False, dht, []) =
     (case List.map_filter (offered lib node) (delivered lib batches) of
        [] \<Rightarrow> (False, dht', [])
      | crt # _ \<Rightarrow> (True, dht', if cb then [] @ [Some crt] else []))" by blast
  show ?thesis
    using f unfolding findCertificate_get_def Dht_get_def Let_def fc_step_def [symmetric]
    by (cases "List.map_filter (offered lib node) (delivered lib batches)"; cases completion)
       (simp_all add: findCertificate_done_def)
qed

text \<open>
  C6. When \<open>findCertificate(node, cb)\<close> falls through to the get on the DHT (no valid
  certificate from \<open>getCertificate\<close>, no local query method or an empty answer from
  it), then whatever batches are delivered and whether or not the get completes: at most
  one call \<open>cb(cert)\<close> is made, and its certificate is one a delivered value offers for
  \<open>node\<close>; with a callback set, \<open>cb(None)\<close> is called exactly when the get
  completes and no delivered value offers a certificate for \<open>node\<close>; and no more
  than one call is made in all.
\<close>

theorem findCertificate_at_most_once:
  assumes "\<not> (case getCertificate lib dht node of None \<Rightarrow> False | Some c \<Rightarrow> Certificate_bool c)"
    and "case localQueryMethod_m dht of None \<Rightarrow> True | Some q \<Rightarrow> q node = []"
  shows "length (filter (\<lambda>x. x \<noteq> None) (snd (findCertificate lib dht node cb batches completion))) \<le> 1 \<and>
         (cb \<longrightarrow>
            (None \<in> set (snd (findCertificate lib dht node cb batches completion)) \<longleftrightarrow>
               completion \<noteq> None \<and>
               List.map_filter (offered lib node) (delivered lib batches) = [])) \<and>
         length (snd (findCertificate lib dht node cb batches completion)) \<le> 1 \<and>
         (\<forall>crt. Some crt \<in> set (snd (findCertificate lib dht node cb batches completion)) \<longrightarrow>
            crt \<in> set (List.map_filter (offered lib node) (delivered lib batches)))"
proof -
  have "findCertificate lib dht node cb batches completion =
        findCertificate_get lib dht node cb batches completion"
    using assms by (auto simp: findCertificate_def Let_def split: option.splits list.splits)
  then show ?thesis
    by (cases "List.map_filter (offered lib node) (delivered lib batches)")
       (auto simp add: findCertificate_get_calls)
qed

theorem findCertificate_at_most_once_witness:
  "\<not> (case getCertificate toy_lib (toy_node 1) 2 of None \<Rightarrow> False | Some c \<Rightarrow> Certificate_bool c) \<and>
   (case localQueryMethod_m (toy_node 1) of None \<Rightarrow> True | Some q \<Rightarrow> q 2 = []) \<and>
   snd (findCertificate toy_lib (toy_node 1) 2 True
          [[toy_cert_value 3, toy_cert_value 2], [toy_cert_value 2]] (Some True)) =
     [Some (toy_cert 2)] \<and>
   snd (findCertificate toy_lib (toy_node 1) 2 True [[toy_cert_value 3]] (Some False)) = [None] \<and>
   length (filter (\<lambda>x. x \<noteq> None)
     (snd (findCertificate toy_lib (toy_node 1) 2 True
          [[toy_cert_value 3, toy_cert_value 2], [toy_cert_value 2]] (Some True)))) \<le> 1"
proof -
  have a: "\<not> (case getCertificate toy_lib (toy_node 1) 2 of None \<Rightarrow> False
               | Some c \<Rightarrow> Certificate_bool c)"
    by (simp add: getCertificate_def getId_def toy_defs)
  have b: "case localQueryMethod_m (toy_node 1) of None \<Rightarrow> True | Some q \<Rightarrow> q 2 = []"
    by (simp add: toy_defs)
  have c: "snd (findCertificate toy_lib (toy_node 1) 2 True
          [[toy_cert_value 3, toy_cert_value 2], [toy_cert_value 2]] (Some True)) =
     [Some (toy_cert 2)]"
    by (simp add: findCertificate_def getCertificate_def getId_def findCertificate_get_def
        Dht_get_def findCertificate_values_def findCertificate_done_def registerCertificate_def
        passes_def TypeFilter_def toy_cert_value_def Value_typed_def Value_id_def toy_defs)
  have d: "snd (findCertificate toy_lib (toy_node 1) 2 True [[toy_cert_value 3]] (Some False)) =
     [None]"
    by (simp add: findCertificate_def getCertificate_def getId_def findCertificate_get_def
        Dht_get_def findCertificate_values_def findCertificate_done_def registerCertificate_def
        passes_def TypeFilter_def toy_cert_value_def Value_typed_def Value_id_def toy_defs)
  from findCertificate_at_most_once [OF a b, of True
      "[[toy_cert_value 3, toy_cert_value 2], [toy_cert_value 2]]" "Some True"] a b c d
  show ?thesis by simp
qed

section \<open>The sequence number of a signed announcement\<close>












end
